theory Spec2Isabelle
  imports Complex_Main
begin

section \<open>The photo hat-overlay editor: data model\<close>

text \<open>
  The repository holds five near-identical React components called \<open>PhotoEditor\<close>.
  They share the pointer, rotate, scale, status and export handlers word for word and
  differ in the flip / tape / colour / reset handlers, in the overlay footprint used by
  the export, and in the download file name:
  \<^item> \<open>AI16Z\<close>: \<^verbatim>\<open>src/unnamed/part_001\<close>;
  \<^item> \<open>SweetyA\<close>: \<^verbatim>\<open>src/unnamed/part_002\<close>, first component (lines 1-383);
  \<^item> \<open>SweetyB\<close>: \<^verbatim>\<open>src/unnamed/part_002\<close>, second component (lines 383-827),
    the one with the window-control modal;
  \<^item> \<open>ElizaColor\<close>: \<^verbatim>\<open>src/unnamed/part_002\<close>, third component (lines 827-1296);
  \<^item> \<open>ElizaTape\<close>: \<^verbatim>\<open>src/src/components/PhotoEditor/PhotoEditor.tsx\<close>.

  Conventions of the embedding.
  \<^item> A JavaScript \<open>number\<close> is modelled as a \<open>real\<close>: arithmetic is exact, no rounding,
    no \<open>NaN\<close>, no infinities.
  \<^item> Every handler is a function from the component state before the event to the state
    after it: React state (\<open>useState\<close>) and refs (\<open>useRef\<close>) are fields of one record,
    and a handler reads the state of the last render, which is the current state because
    every event is handled after the updates of the previous one are rendered.
  \<^item> An imported image asset is a constructor of the datatype \<open>asset\<close>; distinct
    imports are distinct URLs.
\<close>

datatype variant = AI16Z | SweetyA | SweetyB | ElizaColor | ElizaTape

text \<open>\<^verbatim>\<open>types.ts\<close> (\<^verbatim>\<open>src/unnamed/part_000\<close>). The fields \<open>x\<close> and \<open>y\<close> of
  \<open>Position\<close> are called \<open>pos_x\<close> and \<open>pos_y\<close> here.\<close>

record Position =
  pos_x :: real
  pos_y :: real

record Transform =
  position :: Position
  rotation :: real
  scale :: real
  flipX :: bool

datatype direction = Left | Right

datatype scale_direction = Up | Down

text \<open>The value every component passes to \<open>useState<Transform>\<close> and to
  \<open>setTransform\<close> in \<open>handleReset\<close>.\<close>

definition defaultTransform :: Transform where
  "defaultTransform =
     \<lparr>position = \<lparr>pos_x = 0, pos_y = 0\<rparr>, rotation = 0, scale = 1, flipX = False\<rparr>"

subsection \<open>Updater functions passed to \<open>setTransform\<close>\<close>

text \<open>\<open>prev => ({...prev, rotation: prev.rotation + (direction === 'left' ? -15 : 15)})\<close>\<close>

definition rotateTransform :: "direction \<Rightarrow> Transform \<Rightarrow> Transform" where
  "rotateTransform d prev =
     prev\<lparr>rotation := rotation prev + (if d = Left then - 15 else 15)\<rparr>"

text \<open>\<open>prev => ({...prev, scale: Math.max(0.1, Math.min(7, prev.scale * (direction === 'up' ? 1.1 : 0.9)))})\<close>\<close>

definition scaleTransform :: "scale_direction \<Rightarrow> Transform \<Rightarrow> Transform" where
  "scaleTransform d prev =
     prev\<lparr>scale := max (1 / 10) (min 7 (scale prev * (if d = Up then 11 / 10 else 9 / 10)))\<rparr>"

text \<open>\<open>prev => ({...prev, position: {x: clientX - dragStart.current.x, y: clientY - dragStart.current.y}})\<close>\<close>

definition moveTransform :: "real \<Rightarrow> real \<Rightarrow> Position \<Rightarrow> Transform \<Rightarrow> Transform" where
  "moveTransform clientX clientY start prev =
     prev\<lparr>position := \<lparr>pos_x = clientX - pos_x start, pos_y = clientY - pos_y start\<rparr>\<rparr>"

section \<open>Component state\<close>

text \<open>The image assets imported by the five components.\<close>

datatype asset =
    RightImage | LeftImage | RightTapeImage | LeftTapeImage
  | OrangeRightImage | OrangeLeftImage | OrangeRightTapeImage | OrangeLeftTapeImage
  | BlueRightImage | BlueLeftImage | BlueRightTapeImage | BlueLeftTapeImage

datatype hat_color = Orange | Blue

datatype status_type = Error | Success

text \<open>
  The browser's timers. \<open>setTimeout\<close> returns a handle greater than zero; a pending timer
  is its handle, the time in milliseconds at which it is due, and what its callback does:
  \<open>ClearStatus\<close> is \<open>() => setStatus(null)\<close> of \<open>showStatus\<close>, \<open>HideModal\<close> is
  \<open>() => setShowModal(false)\<close> of \<open>handleWindowControl\<close>.
\<close>

datatype timer_callback = ClearStatus | HideModal

record timer =
  timer_id :: nat
  deadline :: nat
  callback :: timer_callback

text \<open>
  One record for the \<open>useState\<close> values, the \<open>useRef\<close> values and the part of the
  browser the handlers act on (clock and pending timers). A component that does not
  declare a field (\<open>hatColor\<close>, \<open>hasTape\<close>, \<open>isFlipped\<close>, \<open>showModal\<close>) never reads
  or writes it. \<open>saveHatImage\<close> is the value of \<open>currentHatImage\<close> inside the closure of
  the memoised \<open>handleSave\<close>: \<open>useCallback\<close> keeps the closure of an earlier render
  until one of the listed dependencies changes.
\<close>

record editor =
  baseImage :: string
  hatColor :: hat_color
  currentHatImage :: asset
  hasTape :: bool
  isFlipped :: bool
  transform :: Transform
  originalImageSize :: "real \<times> real"
  status :: "(string \<times> status_type) option"
  showModal :: bool
  isDragging :: bool
  dragStart :: Position
  statusTimeoutRef :: "nat option"
  saveHatImage :: asset
  now :: nat
  timers :: "timer list"
  nextTimerId :: nat

definition defaultHatImage :: "variant \<Rightarrow> asset" where
  "defaultHatImage v = (if v = ElizaColor then OrangeRightImage else RightImage)"

definition initial :: "variant \<Rightarrow> editor" where
  "initial v =
     \<lparr>baseImage = [], hatColor = Orange, currentHatImage = defaultHatImage v,
      hasTape = False, isFlipped = False, transform = defaultTransform,
      originalImageSize = (0, 0), status = None, showModal = False,
      isDragging = False, dragStart = \<lparr>pos_x = 0, pos_y = 0\<rparr>,
      statusTimeoutRef = None, saveHatImage = defaultHatImage v,
      now = 0, timers = [], nextTimerId = 1\<rparr>"

subsection \<open>Timers\<close>

definition setTimeout :: "timer_callback \<Rightarrow> nat \<Rightarrow> editor \<Rightarrow> nat \<times> editor" where
  "setTimeout cb delay s =
     (nextTimerId s,
      s\<lparr>timers := timers s @ [\<lparr>timer_id = nextTimerId s, deadline = now s + delay, callback = cb\<rparr>],
        nextTimerId := Suc (nextTimerId s)\<rparr>)"

definition clearTimeout :: "nat \<Rightarrow> editor \<Rightarrow> editor" where
  "clearTimeout i s = s\<lparr>timers := filter (\<lambda>t. timer_id t \<noteq> i) (timers s)\<rparr>"

fun runCallback :: "timer_callback \<Rightarrow> editor \<Rightarrow> editor" where
  "runCallback ClearStatus s = s\<lparr>status := None\<rparr>"
| "runCallback HideModal s = s\<lparr>showModal := False\<rparr>"

text \<open>\<open>dt\<close> milliseconds pass: the timers that have become due run, earliest first, and
  are no longer pending.\<close>

definition elapse :: "nat \<Rightarrow> editor \<Rightarrow> editor" where
  "elapse dt s =
     (let t = now s + dt;
          due = filter (\<lambda>tm. deadline tm \<le> t) (timers s);
          pending = filter (\<lambda>tm. \<not> deadline tm \<le> t) (timers s)
      in fold runCallback (map callback (sort_key deadline due)) (s\<lparr>now := t, timers := pending\<rparr>))"

subsection \<open>\<open>showStatus\<close>\<close>

text \<open>
  \<^verbatim>\<open>
  if (statusTimeoutRef.current) { clearTimeout(statusTimeoutRef.current); }
  setStatus({ message, type });
  statusTimeoutRef.current = setTimeout(() => { setStatus(null); }, 1000);
  \<close>
  The test of the ref is JavaScript truthiness: \<open>undefined\<close> and \<open>0\<close> are false.
\<close>

definition showStatus :: "string \<Rightarrow> status_type \<Rightarrow> editor \<Rightarrow> editor" where
  "showStatus message ty s =
     (let s1 = (case statusTimeoutRef s of
                  None \<Rightarrow> s
                | Some i \<Rightarrow> if i \<noteq> 0 then clearTimeout i s else s);
          s2 = s1\<lparr>status := Some (message, ty)\<rparr>;
          (i, s3) = setTimeout ClearStatus 1000 s2
      in s3\<lparr>statusTimeoutRef := Some i\<rparr>)"

subsection \<open>Upload\<close>

record upload_file =
  file_type :: string

definition startsWith :: "string \<Rightarrow> string \<Rightarrow> bool" where
  "startsWith str p = (take (length p) str = p)"

text \<open>\<open>handleBaseImageUpload\<close>: the synchronous part. For an image file it starts the
  \<open>FileReader\<close>, whose \<open>onload\<close> and the \<open>onload\<close> of the decoded image come later.\<close>

definition handleBaseImageUpload :: "upload_file option \<Rightarrow> editor \<Rightarrow> editor" where
  "handleBaseImageUpload f s =
     (case f of
        None \<Rightarrow> s
      | Some fl \<Rightarrow>
          if \<not> startsWith (file_type fl) ''image/''
          then showStatus ''Please select an image file'' Error s
          else s)"

definition readerOnload :: "string \<Rightarrow> editor \<Rightarrow> editor" where
  "readerOnload dataUrl s = s\<lparr>baseImage := dataUrl\<rparr>"

definition imgOnload :: "real \<Rightarrow> real \<Rightarrow> editor \<Rightarrow> editor" where
  "imgOnload w h s =
     showStatus ''Image loaded successfully'' Success (s\<lparr>originalImageSize := (w, h)\<rparr>)"

section \<open>Pointer Interaction Handler\<close>

text \<open>A mouse event or one entry of \<open>e.touches\<close>.\<close>

record pointer =
  clientX :: real
  clientY :: real

text \<open>
  \<^verbatim>\<open>
  if (e.touches.length === 1) {
      isDragging.current = true;
      const touch = e.touches[0];
      dragStart.current = { x: touch.clientX - transform.position.x,
                            y: touch.clientY - transform.position.y };
  }
  \<close>
\<close>

definition handleTouchStart :: "pointer list \<Rightarrow> editor \<Rightarrow> editor" where
  "handleTouchStart touches s =
     (if length touches = 1
      then (let touch = touches ! 0
            in s\<lparr>isDragging := True,
                 dragStart := \<lparr>pos_x = clientX touch - pos_x (position (transform s)),
                               pos_y = clientY touch - pos_y (position (transform s))\<rparr>\<rparr>)
      else s)"

definition handleTouchMove :: "pointer list \<Rightarrow> editor \<Rightarrow> editor" where
  "handleTouchMove touches s =
     (if isDragging s \<and> length touches = 1
      then (let touch = touches ! 0
            in s\<lparr>transform :=
                   moveTransform (clientX touch) (clientY touch) (dragStart s) (transform s)\<rparr>)
      else s)"

definition handleTouchEnd :: "editor \<Rightarrow> editor" where
  "handleTouchEnd s = s\<lparr>isDragging := False\<rparr>"

definition handleMouseDown :: "pointer \<Rightarrow> editor \<Rightarrow> editor" where
  "handleMouseDown e s =
     s\<lparr>isDragging := True,
       dragStart := \<lparr>pos_x = clientX e - pos_x (position (transform s)),
                     pos_y = clientY e - pos_y (position (transform s))\<rparr>\<rparr>"

definition handleMouseMove :: "pointer \<Rightarrow> editor \<Rightarrow> editor" where
  "handleMouseMove e s =
     (if isDragging s
      then s\<lparr>transform := moveTransform (clientX e) (clientY e) (dragStart s) (transform s)\<rparr>
      else s)"

definition handleMouseUp :: "editor \<Rightarrow> editor" where
  "handleMouseUp s = s\<lparr>isDragging := False\<rparr>"

section \<open>Discrete actions\<close>

definition handleRotate :: "direction \<Rightarrow> editor \<Rightarrow> editor" where
  "handleRotate d s = s\<lparr>transform := rotateTransform d (transform s)\<rparr>"

definition handleScale :: "scale_direction \<Rightarrow> editor \<Rightarrow> editor" where
  "handleScale d s = s\<lparr>transform := scaleTransform d (transform s)\<rparr>"

text \<open>\<open>getHatImage\<close> of the colour component.\<close>

definition getHatImage :: "hat_color \<Rightarrow> bool \<Rightarrow> bool \<Rightarrow> asset" where
  "getHatImage color flipped tape =
     (if color = Orange
      then (if flipped
            then (if tape then OrangeLeftTapeImage else OrangeLeftImage)
            else (if tape then OrangeRightTapeImage else OrangeRightImage))
      else (if flipped
            then (if tape then BlueLeftTapeImage else BlueLeftImage)
            else (if tape then BlueRightTapeImage else BlueRightImage)))"

text \<open>
  \<open>handleFlip\<close>, one equation per component.
  \<^item> \<open>AI16Z\<close>: \<open>setCurrentHatImage(prev => prev === rightImage ? leftImage : rightImage)\<close>.
  \<^item> \<open>SweetyA\<close>, \<open>SweetyB\<close>: \<open>newFlipped = !prev\<close>, then
    \<open>setCurrentHatImage(newFlipped ? leftImage : rightImage)\<close>.
  \<^item> \<open>ElizaColor\<close>: \<open>setCurrentHatImage(getHatImage(hatColor, newFlipped, hasTape))\<close>.
  \<^item> \<open>ElizaTape\<close>: \<open>setIsFlipped(prev => !prev)\<close>, then the branch on the
    \<open>isFlipped\<close> and \<open>hasTape\<close> of the render.
\<close>

fun handleFlip :: "variant \<Rightarrow> editor \<Rightarrow> editor" where
  "handleFlip AI16Z s =
     s\<lparr>currentHatImage := (if currentHatImage s = RightImage then LeftImage else RightImage)\<rparr>"
| "handleFlip SweetyA s =
     (let newFlipped = \<not> isFlipped s
      in s\<lparr>isFlipped := newFlipped,
           currentHatImage := (if newFlipped then LeftImage else RightImage)\<rparr>)"
| "handleFlip SweetyB s =
     (let newFlipped = \<not> isFlipped s
      in s\<lparr>isFlipped := newFlipped,
           currentHatImage := (if newFlipped then LeftImage else RightImage)\<rparr>)"
| "handleFlip ElizaColor s =
     (let newFlipped = \<not> isFlipped s
      in s\<lparr>isFlipped := newFlipped,
           currentHatImage := getHatImage (hatColor s) newFlipped (hasTape s)\<rparr>)"
| "handleFlip ElizaTape s =
     s\<lparr>isFlipped := \<not> isFlipped s,
       currentHatImage :=
         (if \<not> isFlipped s
          then (if hasTape s then LeftTapeImage else LeftImage)
          else (if hasTape s then RightTapeImage else RightImage))\<rparr>"

text \<open>\<open>handleTape\<close> exists in \<open>ElizaColor\<close> and \<open>ElizaTape\<close> only; the other
  components have no such control, and the state stays as it is.\<close>

fun handleTape :: "variant \<Rightarrow> editor \<Rightarrow> editor" where
  "handleTape ElizaColor s =
     (let newTape = \<not> hasTape s
      in s\<lparr>hasTape := newTape,
           currentHatImage := getHatImage (hatColor s) (isFlipped s) newTape\<rparr>)"
| "handleTape ElizaTape s =
     s\<lparr>hasTape := \<not> hasTape s,
       currentHatImage :=
         (if isFlipped s
          then (if \<not> hasTape s then LeftTapeImage else LeftImage)
          else (if \<not> hasTape s then RightTapeImage else RightImage))\<rparr>"
| "handleTape v s = s"

text \<open>\<open>handleColorChange\<close> exists in \<open>ElizaColor\<close> only.\<close>

fun handleColorChange :: "variant \<Rightarrow> hat_color \<Rightarrow> editor \<Rightarrow> editor" where
  "handleColorChange ElizaColor newColor s =
     s\<lparr>hatColor := newColor,
       currentHatImage := getHatImage newColor (isFlipped s) (hasTape s)\<rparr>"
| "handleColorChange v newColor s = s"

text \<open>
  \<open>handleReset\<close>. Every component calls \<open>setTransform\<close> with the default literal.
  \<^item> \<open>AI16Z\<close>: nothing else.
  \<^item> \<open>SweetyA\<close>, \<open>SweetyB\<close>: \<open>setIsFlipped(false); setCurrentHatImage(rightImage)\<close>.
  \<^item> \<open>ElizaColor\<close>: \<open>setHasTape(false); setIsFlipped(false);
    setCurrentHatImage(getHatImage(hatColor, false, false))\<close>.
  \<^item> \<open>ElizaTape\<close>: \<open>setHasTape(false); setIsFlipped(false); setCurrentHatImage(rightImage)\<close>.
\<close>

fun handleReset :: "variant \<Rightarrow> editor \<Rightarrow> editor" where
  "handleReset AI16Z s = s\<lparr>transform := defaultTransform\<rparr>"
| "handleReset SweetyA s =
     s\<lparr>transform := defaultTransform, isFlipped := False, currentHatImage := RightImage\<rparr>"
| "handleReset SweetyB s =
     s\<lparr>transform := defaultTransform, isFlipped := False, currentHatImage := RightImage\<rparr>"
| "handleReset ElizaColor s =
     s\<lparr>transform := defaultTransform, hasTape := False, isFlipped := False,
       currentHatImage := getHatImage (hatColor s) False False\<rparr>"
| "handleReset ElizaTape s =
     s\<lparr>transform := defaultTransform, hasTape := False, isFlipped := False,
       currentHatImage := RightImage\<rparr>"

text \<open>\<open>handleWindowControl\<close> (\<open>SweetyB\<close>): \<open>setShowModal(true)\<close> and a two-second timer
  whose handle is dropped.\<close>

definition handleWindowControl :: "editor \<Rightarrow> editor" where
  "handleWindowControl s = snd (setTimeout HideModal 2000 (s\<lparr>showModal := True\<rparr>))"

section \<open>Compositor (export)\<close>

text \<open>
  What \<open>handleSave\<close> finds in the page when it runs: whether the two refs are attached,
  whether the canvas gives a 2D context, whether each image decodes (its \<open>onload\<close>
  fires), the bounding rectangle of the container (width, height), whether the overlay
  holds an \<open>img\<close> element and how wide that element is on screen, and the natural size
  of the hat image (width, height).
\<close>

record save_env =
  overlayRefCurrent :: bool
  containerRefCurrent :: bool
  contextAvailable :: bool
  baseImgLoads :: bool
  containerRect :: "real \<times> real"
  overlayImgFound :: bool
  overlayRectWidth :: real
  hatImgLoads :: bool
  hatImgSize :: "real \<times> real"

datatype image_source = BaseImg string | HatImg asset

text \<open>What \<open>handleSave\<close> does to the page, in the order it does it. \<open>Download name\<close> is the
  click on the link whose \<open>href\<close> is \<open>canvas.toDataURL('image/png')\<close>.\<close>

datatype effect =
    CreateCanvas
  | ResizeCanvas real real
  | DrawImage image_source real real real real
  | CtxSave
  | CtxTranslate real real
  | CtxRotate real
  | CtxScale real real
  | CtxRestore
  | Download string
  | ConsoleError

text \<open>The display footprint of the overlay: \<open>100 * scaleX\<close>, \<open>400 * scaleX\<close>, or
  \<open>overlayImg.getBoundingClientRect().width * scaleX\<close>.\<close>

fun overlayDisplayWidth :: "variant \<Rightarrow> save_env \<Rightarrow> real" where
  "overlayDisplayWidth AI16Z env = 100"
| "overlayDisplayWidth SweetyA env = 400"
| "overlayDisplayWidth SweetyB env = overlayRectWidth env"
| "overlayDisplayWidth ElizaColor env = 400"
| "overlayDisplayWidth ElizaTape env = 100"

fun downloadName :: "variant \<Rightarrow> string" where
  "downloadName AI16Z = ''you-are-a-partner-now.png''"
| "downloadName SweetyA = ''sweetychat-hat.png''"
| "downloadName SweetyB = ''sweetychat-hat.png''"
| "downloadName ElizaColor = ''eliza-hat.png''"
| "downloadName ElizaTape = ''you-are-a-partner-now.png''"

text \<open>
  \<^verbatim>\<open>
  const containerAspect = containerRect.width / containerRect.height;
  const imageAspect = canvas.width / canvas.height;
  let displayedWidth = containerRect.width;
  let displayedHeight = containerRect.height;
  if (containerAspect > imageAspect) { displayedWidth = displayedHeight * imageAspect; }
  else { displayedHeight = displayedWidth / imageAspect; }
  const scaleX = canvas.width / displayedWidth;
  const scaleY = canvas.height / displayedHeight;
  \<close>
  The first argument is the container rectangle, the second the canvas size; the result
  is \<open>(scaleX, scaleY)\<close>.
\<close>

definition exportScale :: "real \<times> real \<Rightarrow> real \<times> real \<Rightarrow> real \<times> real" where
  "exportScale rect canvas =
     (let containerAspect = fst rect / snd rect;
          imageAspect = fst canvas / snd canvas;
          displayedWidth = (if containerAspect > imageAspect then snd rect * imageAspect else fst rect);
          displayedHeight = (if containerAspect > imageAspect then snd rect else fst rect / imageAspect)
      in (fst canvas / displayedWidth, snd canvas / displayedHeight))"

text \<open>The block from \<open>ctx.save()\<close> to \<open>ctx.restore()\<close>. \<open>hat\<close> is the
  \<open>currentHatImage\<close> of the closure, \<open>sc\<close> is \<open>(scaleX, scaleY)\<close>.\<close>

definition drawOverlay ::
  "variant \<Rightarrow> save_env \<Rightarrow> Transform \<Rightarrow> asset \<Rightarrow> real \<times> real \<Rightarrow> real \<times> real \<Rightarrow> effect list" where
  "drawOverlay v env t hat canvas sc =
     (let centerX = fst canvas / 2;
          centerY = snd canvas / 2;
          overlayWidth = overlayDisplayWidth v env * fst sc;
          overlayHeight = (overlayWidth * snd (hatImgSize env)) / fst (hatImgSize env)
      in [CtxSave,
          CtxTranslate (centerX + pos_x (position t) * fst sc) (centerY + pos_y (position t) * snd sc),
          CtxRotate ((rotation t * pi) / 180)]
         @ (if flipX t then [CtxScale (- 1) 1] else [])
         @ [CtxScale (scale t) (scale t),
            DrawImage (HatImg hat) (- overlayWidth / 2) (- overlayHeight / 2) overlayWidth overlayHeight,
            CtxRestore])"

text \<open>
  \<open>handleSave\<close>: the state after it and its effects. An image that does not decode never
  fires \<open>onload\<close>, so the \<open>await\<close> on it never resumes: the handler stops there, with no
  status and no download. The awaits are taken as immediate: no other event comes
  between the click and the end of the handler.
\<close>

definition handleSave :: "variant \<Rightarrow> save_env \<Rightarrow> editor \<Rightarrow> editor \<times> effect list" where
  "handleSave v env s =
     (if baseImage s = [] \<or> \<not> overlayRefCurrent env \<or> \<not> containerRefCurrent env
      then (showStatus ''Please upload an image first'' Error s, [])
      else if \<not> contextAvailable env
      then (showStatus ''Error saving image'' Error s, [CreateCanvas, ConsoleError])
      else if \<not> baseImgLoads env
      then (s, [CreateCanvas])
      else
        (let canvas = originalImageSize s;
             base = [CreateCanvas, ResizeCanvas (fst canvas) (snd canvas),
                     DrawImage (BaseImg (baseImage s)) 0 0 (fst canvas) (snd canvas)];
             sc = exportScale (containerRect env) canvas
         in if overlayImgFound env \<and> \<not> hatImgLoads env
            then (s, base)
            else (showStatus ''Image saved successfully'' Success s,
                  base
                  @ (if overlayImgFound env
                     then drawOverlay v env (transform s) (saveHatImage s) canvas sc
                     else [])
                  @ [Download (downloadName v)])))"

subsection \<open>Live preview\<close>

datatype css_function =
    TranslatePercent real real
  | TranslatePx real real
  | RotateDeg real
  | ScaleXY real real

text \<open>
  \<^verbatim>\<open>
  transform: `translate(-50%, -50%)
              translate(${transform.position.x}px, ${transform.position.y}px)
              rotate(${transform.rotation}deg)
              scale(${transform.scale * (transform.flipX ? -1 : 1)}, ${transform.scale})`
  \<close>
\<close>

definition getOverlayStyle :: "editor \<Rightarrow> css_function list" where
  "getOverlayStyle s =
     (let t = transform s
      in [TranslatePercent (- 50) (- 50),
          TranslatePx (pos_x (position t)) (pos_y (position t)),
          RotateDeg (rotation t),
          ScaleXY (scale t * (if flipX t then - 1 else 1)) (scale t)])"

subsection \<open>What the transform commands mean\<close>

text \<open>
  A 2D affine map \<open>(a, b, c, d, e, f)\<close> sends \<open>(x, y)\<close> to
  \<open>(a x + c y + e, b x + d y + f)\<close>, as \<open>matrix(a, b, c, d, e, f)\<close> does in CSS and in
  the canvas API. Both the canvas commands and a CSS transform list multiply the current
  matrix on the right, in the order written.
\<close>

type_synonym matrix = "real \<times> real \<times> real \<times> real \<times> real \<times> real"

fun mmul :: "matrix \<Rightarrow> matrix \<Rightarrow> matrix" where
  "mmul (a1, b1, c1, d1, e1, f1) (a2, b2, c2, d2, e2, f2) =
     (a1 * a2 + c1 * b2, b1 * a2 + d1 * b2,
      a1 * c2 + c1 * d2, b1 * c2 + d1 * d2,
      a1 * e2 + c1 * f2 + e1, b1 * e2 + d1 * f2 + f1)"

definition identityM :: matrix where
  "identityM = (1, 0, 0, 1, 0, 0)"

definition translateM :: "real \<Rightarrow> real \<Rightarrow> matrix" where
  "translateM tx ty = (1, 0, 0, 1, tx, ty)"

definition rotateM :: "real \<Rightarrow> matrix" where
  "rotateM a = (cos a, sin a, - sin a, cos a, 0, 0)"

definition scaleM :: "real \<Rightarrow> real \<Rightarrow> matrix" where
  "scaleM sx sy = (sx, 0, 0, sy, 0, 0)"

fun linearPart :: "matrix \<Rightarrow> real \<times> real \<times> real \<times> real" where
  "linearPart (a, b, c, d, e, f) = (a, b, c, d)"

text \<open>The canvas: current matrix \<open>m\<close>, stack of saved matrices \<open>st\<close>. The result lists
  every image drawn with the matrix in force and the rectangle given.\<close>

fun canvasRun ::
  "effect list \<Rightarrow> matrix \<Rightarrow> matrix list \<Rightarrow> (image_source \<times> matrix \<times> real \<times> real \<times> real \<times> real) list" where
  "canvasRun [] m st = []"
| "canvasRun (CtxSave # es) m st = canvasRun es m (m # st)"
| "canvasRun (CtxRestore # es) m st =
     (case st of [] \<Rightarrow> canvasRun es m [] | m' # st' \<Rightarrow> canvasRun es m' st')"
| "canvasRun (CtxTranslate tx ty # es) m st = canvasRun es (mmul m (translateM tx ty)) st"
| "canvasRun (CtxRotate a # es) m st = canvasRun es (mmul m (rotateM a)) st"
| "canvasRun (CtxScale sx sy # es) m st = canvasRun es (mmul m (scaleM sx sy)) st"
| "canvasRun (DrawImage src dx dy dw dh # es) m st = (src, m, dx, dy, dw, dh) # canvasRun es m st"
| "canvasRun (e # es) m st = canvasRun es m st"

text \<open>A CSS transform list on a box of the given size (percentages refer to it).\<close>

fun cssMatrix :: "real \<times> real \<Rightarrow> css_function list \<Rightarrow> matrix \<Rightarrow> matrix" where
  "cssMatrix box [] m = m"
| "cssMatrix box (TranslatePercent px py # fs) m =
     cssMatrix box fs (mmul m (translateM (px / 100 * fst box) (py / 100 * snd box)))"
| "cssMatrix box (TranslatePx tx ty # fs) m = cssMatrix box fs (mmul m (translateM tx ty))"
| "cssMatrix box (RotateDeg a # fs) m = cssMatrix box fs (mmul m (rotateM ((a * pi) / 180)))"
| "cssMatrix box (ScaleXY sx sy # fs) m = cssMatrix box fs (mmul m (scaleM sx sy))"

section \<open>The editor as a state machine\<close>

text \<open>
  What can happen to a mounted component: the callbacks of an upload, pointer events on
  the container and the overlay (\<open>mouseleave\<close> is \<open>MouseUp\<close>, \<open>touchcancel\<close> is
  \<open>TouchEnd\<close>), clicks on the controls, and time passing.
\<close>

datatype event =
    SelectFile "upload_file option"
  | ReaderLoad string
  | ImageLoad real real
  | TouchStart "pointer list"
  | TouchMove "pointer list"
  | TouchEnd
  | MouseDown pointer
  | MouseMove pointer
  | MouseUp
  | ClickRotate direction
  | ClickScale scale_direction
  | ClickFlip
  | ClickTape
  | ClickColor hat_color
  | ClickReset
  | ClickSave save_env
  | ClickWindowControl
  | ClickModal
  | Elapse nat

text \<open>The handler each event is wired to. The save button is \<open>disabled\<close> while
  \<open>baseImage\<close> is empty; the window controls and the modal exist in \<open>SweetyB\<close> only.\<close>

fun dispatch :: "variant \<Rightarrow> event \<Rightarrow> editor \<Rightarrow> editor" where
  "dispatch v (SelectFile f) s = handleBaseImageUpload f s"
| "dispatch v (ReaderLoad dataUrl) s = readerOnload dataUrl s"
| "dispatch v (ImageLoad w h) s = imgOnload w h s"
| "dispatch v (TouchStart touches) s = handleTouchStart touches s"
| "dispatch v (TouchMove touches) s = handleTouchMove touches s"
| "dispatch v TouchEnd s = handleTouchEnd s"
| "dispatch v (MouseDown e) s = handleMouseDown e s"
| "dispatch v (MouseMove e) s = handleMouseMove e s"
| "dispatch v MouseUp s = handleMouseUp s"
| "dispatch v (ClickRotate d) s = handleRotate d s"
| "dispatch v (ClickScale d) s = handleScale d s"
| "dispatch v ClickFlip s = handleFlip v s"
| "dispatch v ClickTape s = handleTape v s"
| "dispatch v (ClickColor c) s = handleColorChange v c s"
| "dispatch v ClickReset s = handleReset v s"
| "dispatch v (ClickSave env) s = (if baseImage s = [] then s else fst (handleSave v env s))"
| "dispatch v ClickWindowControl s = (if v = SweetyB then handleWindowControl s else s)"
| "dispatch v ClickModal s = (if v = SweetyB then s\<lparr>showModal := False\<rparr> else s)"
| "dispatch v (Elapse dt) s = elapse dt s"

text \<open>
  Whether the event gives a new value to a dependency \<open>[baseImage, transform,
  originalImageSize]\<close> of \<open>handleSave\<close>: every \<open>setTransform\<close> and
  \<open>setOriginalImageSize\<close> stores a fresh object, \<open>setBaseImage\<close> a string that may be
  the one already there.
\<close>

fun saveDepsChange :: "event \<Rightarrow> editor \<Rightarrow> bool" where
  "saveDepsChange (ReaderLoad dataUrl) s = (baseImage s \<noteq> dataUrl)"
| "saveDepsChange (ImageLoad w h) s = True"
| "saveDepsChange (TouchMove touches) s = (isDragging s \<and> length touches = 1)"
| "saveDepsChange (MouseMove e) s = isDragging s"
| "saveDepsChange (ClickRotate d) s = True"
| "saveDepsChange (ClickScale d) s = True"
| "saveDepsChange ClickReset s = True"
| "saveDepsChange ev s = False"

text \<open>One event: the handler runs, the component renders, and \<open>handleSave\<close> is made
  anew when a dependency has changed (\<open>SweetyB\<close> lists \<open>currentHatImage\<close> as well).\<close>

definition handle :: "variant \<Rightarrow> event \<Rightarrow> editor \<Rightarrow> editor" where
  "handle v ev s =
     (let s' = dispatch v ev s
      in if saveDepsChange ev s \<or> (v = SweetyB \<and> currentHatImage s' \<noteq> currentHatImage s)
         then s'\<lparr>saveHatImage := currentHatImage s'\<rparr>
         else s')"

text \<open>The state reached from mount by a sequence of events: the reachable states of a
  component are the values of \<open>run\<close>.\<close>

definition run :: "variant \<Rightarrow> event list \<Rightarrow> editor" where
  "run v evs = fold (handle v) evs (initial v)"

section \<open>Drag sequences\<close>

text \<open>A drag with the mouse: \<open>mousedown\<close> at \<open>start\<close>, a \<open>mousemove\<close> at each point of
  \<open>moves\<close>, then \<open>mouseup\<close>. A drag with one finger: \<open>touchstart\<close>, \<open>touchmove\<close>s and
  \<open>touchend\<close>, each with a single contact.\<close>

definition mouseDrag :: "pointer \<Rightarrow> pointer list \<Rightarrow> editor \<Rightarrow> editor" where
  "mouseDrag start moves s = handleMouseUp (fold handleMouseMove moves (handleMouseDown start s))"

definition touchDrag :: "pointer \<Rightarrow> pointer list \<Rightarrow> editor \<Rightarrow> editor" where
  "touchDrag start moves s =
     handleTouchEnd (fold (\<lambda>c. handleTouchMove [c]) moves (handleTouchStart [start] s))"

text \<open>\<open>lastContactPoint - dragStartOffset\<close> with
  \<open>dragStartOffset = startContactPoint - positionAtDragStart\<close>.\<close>

definition dragPosition :: "Position \<Rightarrow> pointer \<Rightarrow> pointer \<Rightarrow> Position" where
  "dragPosition p0 start lastc =
     \<lparr>pos_x = clientX lastc - (clientX start - pos_x p0),
      pos_y = clientY lastc - (clientY start - pos_y p0)\<rparr>"

fun isMove :: "event \<Rightarrow> bool" where
  "isMove (MouseMove e) = True"
| "isMove (TouchMove ts) = True"
| "isMove ev = False"

section \<open>Invariants and sample inputs\<close>

text \<open>The asset on show agrees with the toggles: what each component's handlers keep
  true of \<open>currentHatImage\<close>.\<close>

fun hatConsistent :: "variant \<Rightarrow> editor \<Rightarrow> bool" where
  "hatConsistent AI16Z s = (currentHatImage s = RightImage \<or> currentHatImage s = LeftImage)"
| "hatConsistent SweetyA s = (currentHatImage s = (if isFlipped s then LeftImage else RightImage))"
| "hatConsistent SweetyB s = (currentHatImage s = (if isFlipped s then LeftImage else RightImage))"
| "hatConsistent ElizaColor s =
     (currentHatImage s = getHatImage (hatColor s) (isFlipped s) (hasTape s))"
| "hatConsistent ElizaTape s =
     (currentHatImage s =
        (if isFlipped s
         then (if hasTape s then LeftTapeImage else LeftImage)
         else (if hasTape s then RightTapeImage else RightImage)))"

text \<open>Every pending status-dismissal timer is the one \<open>statusTimeoutRef\<close> holds, and
  handles are never zero.\<close>

definition timerInv :: "editor \<Rightarrow> bool" where
  "timerInv s =
     (0 < nextTimerId s
      \<and> (\<forall>t \<in> set (timers s).
            callback t = ClearStatus \<longrightarrow> timer_id t \<noteq> 0 \<and> statusTimeoutRef s = Some (timer_id t)))"

text \<open>The conditions under which \<open>handleSave\<close> reaches the drawing of the overlay and the
  download, with container, photo and hat of positive size.\<close>

definition exportReady :: "save_env \<Rightarrow> editor \<Rightarrow> bool" where
  "exportReady env s =
     (baseImage s \<noteq> [] \<and> overlayRefCurrent env \<and> containerRefCurrent env
      \<and> contextAvailable env \<and> baseImgLoads env \<and> overlayImgFound env \<and> hatImgLoads env
      \<and> 0 < fst (containerRect env) \<and> 0 < snd (containerRect env)
      \<and> 0 < fst (originalImageSize s) \<and> 0 < snd (originalImageSize s)
      \<and> 0 < fst (hatImgSize env))"

text \<open>A page with a 400 by 400 container and a 200 by 100 hat image, and an editor of the
  \<open>ElizaTape\<close> component holding a 1000 by 2000 photo with the overlay dragged by
  \<open>(50, -30)\<close> and scaled up once.\<close>

definition sampleEnv :: save_env where
  "sampleEnv =
     \<lparr>overlayRefCurrent = True, containerRefCurrent = True, contextAvailable = True,
      baseImgLoads = True, containerRect = (400, 400), overlayImgFound = True,
      overlayRectWidth = 100, hatImgLoads = True, hatImgSize = (200, 100)\<rparr>"

definition sampleState :: editor where
  "sampleState =
     (initial ElizaTape)
       \<lparr>baseImage := ''data:image/png;base64,AAAA'',
        originalImageSize := (1000, 2000),
        transform := \<lparr>position = \<lparr>pos_x = 50, pos_y = - 30\<rparr>, rotation = 0,
                      scale = 11 / 10, flipX = False\<rparr>\<rparr>"

section \<open>Rotation and scale\<close>

lemma funpow_rotate_Right:
  "(handleRotate Right ^^ n) s =
     s\<lparr>transform := (transform s)\<lparr>rotation := rotation (transform s) + 15 * real n\<rparr>\<rparr>"
  by (induction n) (simp_all add: handleRotate_def rotateTransform_def algebra_simps)

lemma funpow_rotate_Left:
  "(handleRotate Left ^^ n) s =
     s\<lparr>transform := (transform s)\<lparr>rotation := rotation (transform s) - 15 * real n\<rparr>\<rparr>"
  by (induction n) (simp_all add: handleRotate_def rotateTransform_def algebra_simps)

text \<open>
  Claim C6. Rotation is additive and unbounded: one rotate-right adds 15 to
  \<open>transform.rotation\<close>, one rotate-left subtracts 15, \<open>n\<close> of them add or subtract
  \<open>15 n\<close> with no clamp and no wrap-around, and \<open>n\<close> rotate-right actions followed by
  \<open>n\<close> rotate-left actions give back the original rotation (indeed the original state),
  for every \<open>n\<close> and from every state.
\<close>

theorem rotation_additive_unbounded:
  "rotation (transform (handleRotate Right s)) = rotation (transform s) + 15
   \<and> rotation (transform (handleRotate Left s)) = rotation (transform s) - 15
   \<and> rotation (transform ((handleRotate Right ^^ n) s)) = rotation (transform s) + 15 * real n
   \<and> rotation (transform ((handleRotate Left ^^ n) s)) = rotation (transform s) - 15 * real n
   \<and> rotation (transform ((handleRotate Left ^^ n) ((handleRotate Right ^^ n) s)))
       = rotation (transform s)
   \<and> (handleRotate Left ^^ n) ((handleRotate Right ^^ n) s) = s"
  by (simp add: funpow_rotate_Right funpow_rotate_Left)
     (simp add: handleRotate_def rotateTransform_def)

lemma handleScale_bounds:
  "1 / 10 \<le> scale (transform (handleScale d s)) \<and> scale (transform (handleScale d s)) \<le> 7"
  by (simp add: handleScale_def scaleTransform_def)

lemma fold_handleScale_bounds:
  "1 / 10 \<le> scale (transform s) \<and> scale (transform s) \<le> 7 \<Longrightarrow>
   1 / 10 \<le> scale (transform (fold handleScale ds s))
   \<and> scale (transform (fold handleScale ds s)) \<le> 7"
proof (induction ds arbitrary: s)
  case Nil
  then show ?case by simp
next
  case (Cons d ds)
  have "fold handleScale (d # ds) s = fold handleScale ds (handleScale d s)"
    by simp
  with Cons.IH[OF handleScale_bounds[of d s]] show ?case
    by simp
qed

text \<open>
  Claim C3. After any finite sequence \<open>ds\<close> of scale-up and scale-down actions from the
  state at mount, where the scale is 1, the scale lies between 0.1 and 7; a scale-up
  sets the scale to its product with 1.1 clamped into \<open>[0.1, 7]\<close>, a scale-down to its
  product with 0.9 clamped likewise.
\<close>

theorem scale_always_clamped:
  "1 / 10 \<le> scale (transform (fold handleScale ds (initial v)))
   \<and> scale (transform (fold handleScale ds (initial v))) \<le> 7
   \<and> scale (transform (initial v)) = 1
   \<and> scale (transform (handleScale Up s)) = max (1 / 10) (min 7 (scale (transform s) * (11 / 10)))
   \<and> scale (transform (handleScale Down s)) = max (1 / 10) (min 7 (scale (transform s) * (9 / 10)))"
proof -
  have "1 / 10 \<le> scale (transform (initial v)) \<and> scale (transform (initial v)) \<le> 7"
    by (simp add: initial_def defaultTransform_def)
  from fold_handleScale_bounds[OF this] show ?thesis
    by (simp add: handleScale_def scaleTransform_def initial_def defaultTransform_def)
qed

text \<open>
  Claim C10. A rotate action leaves position, scale and \<open>flipX\<close> as they were, a scale
  action leaves position, rotation and \<open>flipX\<close>, and a drag-move (mouse or touch) leaves
  rotation, scale and \<open>flipX\<close>; in each case the state after the action is the state
  before it with that one field of the Transform replaced.
\<close>

theorem transform_update_frame:
  "position (transform (handleRotate d s)) = position (transform s)
   \<and> scale (transform (handleRotate d s)) = scale (transform s)
   \<and> flipX (transform (handleRotate d s)) = flipX (transform s)
   \<and> position (transform (handleScale sd s)) = position (transform s)
   \<and> rotation (transform (handleScale sd s)) = rotation (transform s)
   \<and> flipX (transform (handleScale sd s)) = flipX (transform s)
   \<and> rotation (transform (handleMouseMove e s)) = rotation (transform s)
   \<and> scale (transform (handleMouseMove e s)) = scale (transform s)
   \<and> flipX (transform (handleMouseMove e s)) = flipX (transform s)
   \<and> rotation (transform (handleTouchMove ts s)) = rotation (transform s)
   \<and> scale (transform (handleTouchMove ts s)) = scale (transform s)
   \<and> flipX (transform (handleTouchMove ts s)) = flipX (transform s)
   \<and> handleRotate d s
       = s\<lparr>transform := (transform s)\<lparr>rotation := rotation (transform (handleRotate d s))\<rparr>\<rparr>
   \<and> handleScale sd s
       = s\<lparr>transform := (transform s)\<lparr>scale := scale (transform (handleScale sd s))\<rparr>\<rparr>
   \<and> handleMouseMove e s
       = s\<lparr>transform := (transform s)\<lparr>position := position (transform (handleMouseMove e s))\<rparr>\<rparr>
   \<and> handleTouchMove ts s
       = s\<lparr>transform := (transform s)\<lparr>position := position (transform (handleTouchMove ts s))\<rparr>\<rparr>"
  by (simp add: handleRotate_def handleScale_def handleMouseMove_def handleTouchMove_def
      rotateTransform_def scaleTransform_def moveTransform_def Let_def)

section \<open>Dragging and the export precondition\<close>

lemma fold_mouseMove_dragging:
  "isDragging s \<Longrightarrow>
   fold handleMouseMove moves s =
     (if moves = [] then s
      else s\<lparr>transform := moveTransform (clientX (last moves)) (clientY (last moves)) (dragStart s) (transform s)\<rparr>)"
proof (induction moves arbitrary: s)
  case Nil
  then show ?case by simp
next
  case (Cons m ms)
  let ?s1 = "handleMouseMove m s"
  have d: "isDragging ?s1" "dragStart ?s1 = dragStart s"
    using Cons.prems by (simp_all add: handleMouseMove_def)
  show ?case
    using Cons.prems Cons.IH[OF d(1)] 
    by (simp add: handleMouseMove_def moveTransform_def)
qed

lemma fold_touchMove_dragging:
  "isDragging s \<Longrightarrow>
   fold (\<lambda>c. handleTouchMove [c]) moves s =
     (if moves = [] then s
      else s\<lparr>transform := moveTransform (clientX (last moves)) (clientY (last moves)) (dragStart s) (transform s)\<rparr>)"
proof (induction moves arbitrary: s)
  case Nil
  then show ?case by simp
next
  case (Cons m ms)
  let ?s1 = "handleTouchMove [m] s"
  have d: "isDragging ?s1" "dragStart ?s1 = dragStart s"
    using Cons.prems by (simp_all add: handleTouchMove_def)
  show ?case
    using Cons.prems Cons.IH[OF d(1)] 
    by (simp add: handleTouchMove_def moveTransform_def)
qed

lemma mouseDrag_position:
  "position (transform (mouseDrag start moves s)) =
     dragPosition (position (transform s)) start (last (start # moves))"
  by (simp add: mouseDrag_def fold_mouseMove_dragging handleMouseDown_def handleMouseUp_def
      moveTransform_def dragPosition_def)

lemma touchDrag_position:
  "position (transform (touchDrag start moves s)) =
     dragPosition (position (transform s)) start (last (start # moves))"
  by (simp add: touchDrag_def fold_touchMove_dragging handleTouchStart_def handleTouchEnd_def
      moveTransform_def dragPosition_def)

lemma moves_ignored_when_idle:
  "\<not> isDragging s \<Longrightarrow> fold (dispatch v) (filter isMove evs) s = s"
proof (induction evs arbitrary: s)
  case Nil
  then show ?case by simp
next
  case (Cons ev evs)
  then show ?case
    by (cases ev) (simp_all add: handleMouseMove_def handleTouchMove_def)
qed

text \<open>
  Claim C2. After a drag (start at a contact point, any number of moves, end) the
  position of the overlay is the last contact point minus the drag-start offset, where
  the offset is the start contact point minus the position at drag-start and the last
  contact point is that of the last move (of the start when there is no move). Only the
  last move counts: any moves before it can be dropped. After the drag has ended, move
  events, of the mouse or of a finger, change nothing. This holds for the mouse and for
  a single touch alike.
\<close>

theorem drag_tracks_pointer:
  "position (transform (mouseDrag start moves s))
     = dragPosition (position (transform s)) start (last (start # moves))
   \<and> position (transform (touchDrag start moves s))
     = dragPosition (position (transform s)) start (last (start # moves))
   \<and> position (transform (mouseDrag start (moves @ [c]) s))
     = position (transform (mouseDrag start [c] s))
   \<and> position (transform (touchDrag start (moves @ [c]) s))
     = position (transform (touchDrag start [c] s))
   \<and> fold (dispatch v) (filter isMove evs) (mouseDrag start moves s) = mouseDrag start moves s
   \<and> fold (dispatch v) (filter isMove evs) (touchDrag start moves s) = touchDrag start moves s"
proof -
  have "\<not> isDragging (mouseDrag start moves s)" "\<not> isDragging (touchDrag start moves s)"
    by (simp_all add: mouseDrag_def touchDrag_def handleMouseUp_def handleTouchEnd_def)
  then show ?thesis
    by (simp add: mouseDrag_position touchDrag_position moves_ignored_when_idle)
qed

lemma showStatus_unfold:
  "showStatus message ty s =
     s\<lparr>status := Some (message, ty),
       timers := (case statusTimeoutRef s of None \<Rightarrow> timers s
                  | Some i \<Rightarrow> if i \<noteq> 0 then filter (\<lambda>t. timer_id t \<noteq> i) (timers s) else timers s)
                 @ [\<lparr>timer_id = nextTimerId s, deadline = now s + 1000, callback = ClearStatus\<rparr>],
       nextTimerId := Suc (nextTimerId s),
       statusTimeoutRef := Some (nextTimerId s)\<rparr>"
  by (simp add: showStatus_def setTimeout_def clearTimeout_def split: option.splits)

text \<open>
  Claim C4. \<open>handleSave\<close> with no base image (\<open>baseImage\<close> empty) has no effect on the
  page: no canvas is created, nothing is drawn, nothing is downloaded. It shows the
  error notification \<open>Please upload an image first\<close>, and the state after it is the state
  before it except for the status and the bookkeeping of its dismissal timer.
\<close>

theorem save_needs_base_image:
  "baseImage s = [] \<Longrightarrow>
   snd (handleSave v env s) = []
   \<and> status (fst (handleSave v env s)) = Some (''Please upload an image first'', Error)
   \<and> fst (handleSave v env s) = showStatus ''Please upload an image first'' Error s
   \<and> fst (handleSave v env s) =
       s\<lparr>status := Some (''Please upload an image first'', Error),
         timers := timers (fst (handleSave v env s)),
         nextTimerId := nextTimerId (fst (handleSave v env s)),
         statusTimeoutRef := statusTimeoutRef (fst (handleSave v env s))\<rparr>"
  by (simp add: handleSave_def showStatus_unfold)

theorem save_needs_base_image_witness:
  "baseImage (initial ElizaTape) = []
   \<and> handleSave ElizaTape sampleEnv (initial ElizaTape) =
       ((initial ElizaTape)\<lparr>status := Some (''Please upload an image first'', Error),
          timers := [\<lparr>timer_id = 1, deadline = 1000, callback = ClearStatus\<rparr>],
          nextTimerId := 2, statusTimeoutRef := Some 1\<rparr>, [])"
  using save_needs_base_image[of "initial ElizaTape" ElizaTape sampleEnv]
  by (simp add: initial_def showStatus_unfold prod_eq_iff)

section \<open>Frame lemmas and invariants of the reachable states\<close>

lemma fold_runCallback_frame:
  "transform (fold runCallback cbs s) = transform s
   \<and> currentHatImage (fold runCallback cbs s) = currentHatImage s
   \<and> isFlipped (fold runCallback cbs s) = isFlipped s
   \<and> hasTape (fold runCallback cbs s) = hasTape s
   \<and> hatColor (fold runCallback cbs s) = hatColor s
   \<and> saveHatImage (fold runCallback cbs s) = saveHatImage s
   \<and> timers (fold runCallback cbs s) = timers s
   \<and> nextTimerId (fold runCallback cbs s) = nextTimerId s
   \<and> statusTimeoutRef (fold runCallback cbs s) = statusTimeoutRef s
   \<and> now (fold runCallback cbs s) = now s"
proof (induction cbs arbitrary: s)
  case Nil
  show ?case by simp
next
  case (Cons cb cbs)
  show ?case using Cons.IH[of "runCallback cb s"] by (cases cb) simp_all
qed

lemma elapse_frame:
  "transform (elapse dt s) = transform s
   \<and> currentHatImage (elapse dt s) = currentHatImage s
   \<and> isFlipped (elapse dt s) = isFlipped s
   \<and> hasTape (elapse dt s) = hasTape s
   \<and> hatColor (elapse dt s) = hatColor s
   \<and> saveHatImage (elapse dt s) = saveHatImage s
   \<and> nextTimerId (elapse dt s) = nextTimerId s
   \<and> statusTimeoutRef (elapse dt s) = statusTimeoutRef s
   \<and> now (elapse dt s) = now s + dt
   \<and> timers (elapse dt s) = filter (\<lambda>tm. \<not> deadline tm \<le> now s + dt) (timers s)"
  by (simp add: elapse_def Let_def fold_runCallback_frame)

lemma handleSave_state:
  "fst (handleSave v env s) = s \<or> (\<exists>m ty. fst (handleSave v env s) = showStatus m ty s)"
  by (auto simp: handleSave_def Let_def)

lemma handleSave_frame:
  "transform (fst (handleSave v env s)) = transform s
   \<and> currentHatImage (fst (handleSave v env s)) = currentHatImage s
   \<and> isFlipped (fst (handleSave v env s)) = isFlipped s
   \<and> hasTape (fst (handleSave v env s)) = hasTape s
   \<and> hatColor (fst (handleSave v env s)) = hatColor s
   \<and> saveHatImage (fst (handleSave v env s)) = saveHatImage s"
  using handleSave_state[of v env s] by (auto simp: showStatus_unfold)

lemma handleFlip_transform: "transform (handleFlip v s) = transform s"
  by (cases v) (simp_all add: Let_def)

lemma handleTape_transform: "transform (handleTape v s) = transform s"
  by (cases v) (simp_all add: Let_def)

lemma handleColorChange_transform: "transform (handleColorChange v c s) = transform s"
  by (cases v) simp_all

lemma handleReset_transform: "transform (handleReset v s) = defaultTransform"
  by (cases v) simp_all

lemma dispatch_flipX:
  "flipX (transform (dispatch v ev s)) = (flipX (transform s) \<and> ev \<noteq> ClickReset)"
  by (cases ev)
     (simp_all add: handleBaseImageUpload_def readerOnload_def imgOnload_def showStatus_unfold
        handleTouchStart_def handleTouchMove_def handleTouchEnd_def handleMouseDown_def
        handleMouseMove_def handleMouseUp_def handleRotate_def handleScale_def
        rotateTransform_def scaleTransform_def moveTransform_def Let_def
        handleFlip_transform handleTape_transform handleColorChange_transform
        handleReset_transform handleSave_frame handleWindowControl_def setTimeout_def
        elapse_frame defaultTransform_def split: option.splits)

lemma handle_transform: "transform (handle v ev s) = transform (dispatch v ev s)"
  by (simp add: handle_def Let_def)

lemma handle_flipX:
  "flipX (transform (handle v ev s)) = (flipX (transform s) \<and> ev \<noteq> ClickReset)"
  by (simp add: handle_transform dispatch_flipX)

lemma fold_handle_flipX:
  "\<not> flipX (transform s) \<Longrightarrow> \<not> flipX (transform (fold (handle v) evs s))"
  by (induction evs arbitrary: s) (simp_all add: handle_flipX)

lemma run_flipX: "\<not> flipX (transform (run v evs))"
  unfolding run_def by (rule fold_handle_flipX) (simp add: initial_def defaultTransform_def)

lemma dispatch_scale:
  "scale (transform (dispatch v ev s)) =
     (case ev of ClickReset \<Rightarrow> 1
      | ClickScale d \<Rightarrow> max (1 / 10) (min 7 (scale (transform s) * (if d = Up then 11 / 10 else 9 / 10)))
      | _ \<Rightarrow> scale (transform s))"
  by (cases ev)
     (simp_all add: handleBaseImageUpload_def readerOnload_def imgOnload_def showStatus_unfold
        handleTouchStart_def handleTouchMove_def handleTouchEnd_def handleMouseDown_def
        handleMouseMove_def handleMouseUp_def handleRotate_def handleScale_def
        rotateTransform_def scaleTransform_def moveTransform_def Let_def
        handleFlip_transform handleTape_transform handleColorChange_transform
        handleReset_transform handleSave_frame handleWindowControl_def setTimeout_def
        elapse_frame defaultTransform_def split: option.splits)

lemma handle_scale_bounds:
  "1 / 10 \<le> scale (transform s) \<and> scale (transform s) \<le> 7 \<Longrightarrow>
   1 / 10 \<le> scale (transform (handle v ev s)) \<and> scale (transform (handle v ev s)) \<le> 7"
  by (auto simp: handle_transform dispatch_scale min_def max_def split: event.splits)

lemma fold_handle_scale_bounds:
  "1 / 10 \<le> scale (transform s) \<and> scale (transform s) \<le> 7 \<Longrightarrow>
   1 / 10 \<le> scale (transform (fold (handle v) evs s))
   \<and> scale (transform (fold (handle v) evs s)) \<le> 7"
proof (induction evs arbitrary: s)
  case Nil
  then show ?case by simp
next
  case (Cons ev evs)
  have "fold (handle v) (ev # evs) s = fold (handle v) evs (handle v ev s)" by simp
  with Cons.IH[OF handle_scale_bounds[OF Cons.prems, of v ev]] show ?case by simp
qed

lemma run_scale_bounds:
  "1 / 10 \<le> scale (transform (run v evs)) \<and> scale (transform (run v evs)) \<le> 7"
  unfolding run_def by (rule fold_handle_scale_bounds) (simp add: initial_def defaultTransform_def)


lemma handleSave_no_mirror:
  "\<not> flipX (transform s) \<Longrightarrow> CtxScale (- 1) 1 \<notin> set (snd (handleSave v env s))"
  by (simp add: handleSave_def drawOverlay_def Let_def)

text \<open>
  Claim C9. In every reachable state of every component \<open>transform.flipX\<close> is false:
  an event leaves \<open>flipX\<close> as it was, except reset, which sets it to false, and the
  flip action does not touch the Transform (it swaps the asset). So from a
  reachable state the export never issues \<open>ctx.scale(-1, 1)\<close>, and the preview's scale
  function has the positive \<open>transform.scale\<close> on both axes.
\<close>

theorem flipX_never_set:
  "\<not> flipX (transform (run v evs))
   \<and> flipX (transform (handle v ev s)) = (flipX (transform s) \<and> ev \<noteq> ClickReset)
   \<and> transform (handleFlip v s) = transform s
   \<and> CtxScale (- 1) 1 \<notin> set (snd (handleSave v env (run v evs)))
   \<and> getOverlayStyle (run v evs) =
       [TranslatePercent (- 50) (- 50),
        TranslatePx (pos_x (position (transform (run v evs)))) (pos_y (position (transform (run v evs)))),
        RotateDeg (rotation (transform (run v evs))),
        ScaleXY (scale (transform (run v evs))) (scale (transform (run v evs)))]
   \<and> 0 < scale (transform (run v evs))"
proof -
  have "0 < scale (transform (run v evs))"
    using run_scale_bounds[of v evs] by simp
  then show ?thesis
    by (simp add: run_flipX handle_flipX handleFlip_transform handleSave_no_mirror
        getOverlayStyle_def Let_def)
qed

theorem flipX_never_set_witness:
  "\<not> flipX (transform (run ElizaTape [ClickFlip, ClickRotate Right]))
   \<and> \<not> flipX (transform (handle ElizaTape ClickFlip (initial ElizaTape)))
   \<and> CtxScale (- 1) 1 \<notin> set (snd (handleSave ElizaTape sampleEnv (run ElizaTape [ClickFlip, ClickRotate Right])))
   \<and> getOverlayStyle (run ElizaTape [ClickFlip, ClickRotate Right]) =
       [TranslatePercent (- 50) (- 50), TranslatePx 0 0, RotateDeg 15, ScaleXY 1 1]"
  using flipX_never_set[of ElizaTape "[ClickFlip, ClickRotate Right]" ClickFlip "initial ElizaTape" sampleEnv]
  by (simp add: run_def handle_def initial_def defaultTransform_def handleRotate_def rotateTransform_def Let_def)

lemma initial_hatConsistent: "hatConsistent v (initial v)"
  by (cases v) (simp_all add: initial_def defaultHatImage_def getHatImage_def)

lemma handle_hatConsistent: "hatConsistent v s \<Longrightarrow> hatConsistent v (handle v ev s)"
  by (cases ev; cases v)
     (simp_all add: handle_def Let_def handleBaseImageUpload_def readerOnload_def imgOnload_def
        showStatus_unfold handleTouchStart_def handleTouchMove_def handleTouchEnd_def
        handleMouseDown_def handleMouseMove_def handleMouseUp_def handleRotate_def
        handleScale_def handleSave_frame handleWindowControl_def setTimeout_def elapse_frame
        getHatImage_def split: option.splits)

lemma fold_handle_hatConsistent:
  "hatConsistent v s \<Longrightarrow> hatConsistent v (fold (handle v) evs s)"
  by (induction evs arbitrary: s) (simp_all add: handle_hatConsistent)

lemma run_hatConsistent: "hatConsistent v (run v evs)"
  unfolding run_def by (rule fold_handle_hatConsistent) (rule initial_hatConsistent)

lemma handleFlip_twice: "hatConsistent v s \<Longrightarrow> handleFlip v (handleFlip v s) = s"
  by (cases v) (auto simp: Let_def getHatImage_def)

lemma handle_flip_twice:
  "hatConsistent v s \<Longrightarrow>
   currentHatImage (handle v ClickFlip (handle v ClickFlip s)) = currentHatImage s
   \<and> isFlipped (handle v ClickFlip (handle v ClickFlip s)) = isFlipped s"
  by (cases v) (auto simp: handle_def Let_def getHatImage_def)

lemma run_append: "run v (evs @ evs') = fold (handle v) evs' (run v evs)"
  by (simp add: run_def)

text \<open>
  Claim C7. From every reachable state of every component, two flips in a row give back
  the state they started from, in particular the current hat asset and the flip flag:
  both for two calls of \<open>handleFlip\<close> and for two clicks handled by the component.
\<close>

theorem flip_twice_restores_variant:
  "handleFlip v (handleFlip v (run v evs)) = run v evs
   \<and> currentHatImage (handleFlip v (handleFlip v (run v evs))) = currentHatImage (run v evs)
   \<and> isFlipped (handleFlip v (handleFlip v (run v evs))) = isFlipped (run v evs)
   \<and> currentHatImage (run v (evs @ [ClickFlip, ClickFlip])) = currentHatImage (run v evs)
   \<and> isFlipped (run v (evs @ [ClickFlip, ClickFlip])) = isFlipped (run v evs)"
  using handleFlip_twice[OF run_hatConsistent, of v evs] handle_flip_twice[OF run_hatConsistent, of v evs]
  by (simp add: run_append)

text \<open>
  Claim C1 as stated fails: in the colour component reset keeps the selected colour, so
  after choosing blue a reset shows the blue right-facing hat, not the default orange
  one.
\<close>

theorem reset_restores_defaults_counterexample:
  "currentHatImage (handleReset ElizaColor (run ElizaColor [ClickColor Blue]))
     \<noteq> defaultHatImage ElizaColor"
  by (simp add: run_def handle_def initial_def defaultHatImage_def getHatImage_def)

text \<open>
  Claim C1, amended. From every state, reset yields the default Transform (position
  \<open>(0, 0)\<close>, rotation 0, scale 1, \<open>flipX\<close> false) in every component, and a second reset
  changes nothing. In \<open>SweetyA\<close>, \<open>SweetyB\<close> and \<open>ElizaTape\<close> it also clears the flip
  (and tape) flags and shows the default hat asset. In \<open>ElizaColor\<close> it clears the flip
  and tape flags and keeps the colour: the asset is the right-facing untaped hat of the
  current colour, the default asset when the colour is orange.
\<close>

theorem reset_restores_defaults:
  "transform (handleReset v s) = defaultTransform
   \<and> defaultTransform =
       \<lparr>position = \<lparr>pos_x = 0, pos_y = 0\<rparr>, rotation = 0, scale = 1, flipX = False\<rparr>
   \<and> handleReset v (handleReset v s) = handleReset v s
   \<and> currentHatImage (handleReset SweetyA s) = defaultHatImage SweetyA
   \<and> \<not> isFlipped (handleReset SweetyA s)
   \<and> currentHatImage (handleReset SweetyB s) = defaultHatImage SweetyB
   \<and> \<not> isFlipped (handleReset SweetyB s)
   \<and> currentHatImage (handleReset ElizaTape s) = defaultHatImage ElizaTape
   \<and> \<not> isFlipped (handleReset ElizaTape s)
   \<and> \<not> hasTape (handleReset ElizaTape s)
   \<and> currentHatImage (handleReset ElizaColor s) = getHatImage (hatColor s) False False
   \<and> hatColor (handleReset ElizaColor s) = hatColor s
   \<and> \<not> isFlipped (handleReset ElizaColor s)
   \<and> \<not> hasTape (handleReset ElizaColor s)
   \<and> getHatImage Orange False False = defaultHatImage ElizaColor
   \<and> getHatImage Blue False False = BlueRightImage"
  by (cases v) (simp_all add: defaultHatImage_def getHatImage_def defaultTransform_def)

text \<open>In \<open>AI16Z\<close> the reset handler sets the Transform and nothing else: after a flip
  the left-facing hat stays on show.\<close>

lemma reset_AI16Z_keeps_hat:
  "handleReset AI16Z s = s\<lparr>transform := defaultTransform\<rparr>
   \<and> currentHatImage (handleReset AI16Z (run AI16Z [ClickFlip])) = LeftImage"
  by (simp add: run_def handle_def initial_def defaultHatImage_def)

section \<open>Status notifications\<close>

lemma showStatus_timerInv: "timerInv s \<Longrightarrow> timerInv (showStatus m ty s)"
  by (auto simp: timerInv_def showStatus_unfold split: option.splits)

lemma handleSave_timerInv: "timerInv s \<Longrightarrow> timerInv (fst (handleSave v env s))"
  using handleSave_state[of v env s] by (auto simp: showStatus_timerInv)

lemma handleFlip_timers:
  "timers (handleFlip v s) = timers s \<and> nextTimerId (handleFlip v s) = nextTimerId s
   \<and> statusTimeoutRef (handleFlip v s) = statusTimeoutRef s"
  by (cases v) (simp_all add: Let_def)

lemma handleTape_timers:
  "timers (handleTape v s) = timers s \<and> nextTimerId (handleTape v s) = nextTimerId s
   \<and> statusTimeoutRef (handleTape v s) = statusTimeoutRef s"
  by (cases v) (simp_all add: Let_def)

lemma handleColorChange_timers:
  "timers (handleColorChange v c s) = timers s \<and> nextTimerId (handleColorChange v c s) = nextTimerId s
   \<and> statusTimeoutRef (handleColorChange v c s) = statusTimeoutRef s"
  by (cases v) (simp_all add: Let_def)

lemma handleReset_timers:
  "timers (handleReset v s) = timers s \<and> nextTimerId (handleReset v s) = nextTimerId s
   \<and> statusTimeoutRef (handleReset v s) = statusTimeoutRef s"
  by (cases v) (simp_all add: Let_def)

lemma dispatch_timerInv: "timerInv s \<Longrightarrow> timerInv (dispatch v ev s)"
proof (cases ev)
  case (SelectFile f)
  assume "timerInv s"
  then show ?thesis using SelectFile
    by (simp add: handleBaseImageUpload_def showStatus_timerInv split: option.splits)
next
  case (ImageLoad w h)
  assume "timerInv s"
  then have "timerInv (s\<lparr>originalImageSize := (w, h)\<rparr>)" by (simp add: timerInv_def)
  then show ?thesis using ImageLoad by (simp add: imgOnload_def showStatus_timerInv)
next
  case (ClickSave env)
  assume "timerInv s"
  then show ?thesis using ClickSave by (simp add: handleSave_timerInv)
qed (simp_all add: timerInv_def readerOnload_def handleTouchStart_def handleTouchMove_def
      handleTouchEnd_def handleMouseDown_def handleMouseMove_def handleMouseUp_def
      handleRotate_def handleScale_def handleFlip_timers handleTape_timers
      handleColorChange_timers handleReset_timers handleWindowControl_def setTimeout_def
      elapse_frame Let_def)

lemma handle_timerInv: "timerInv s \<Longrightarrow> timerInv (handle v ev s)"
proof -
  assume "timerInv s"
  then have "timerInv (dispatch v ev s)" by (rule dispatch_timerInv)
  then show ?thesis by (simp add: handle_def Let_def timerInv_def)
qed

lemma fold_handle_timerInv: "timerInv s \<Longrightarrow> timerInv (fold (handle v) evs s)"
  by (induction evs arbitrary: s) (simp_all add: handle_timerInv)

lemma run_timerInv: "timerInv (run v evs)"
  unfolding run_def by (rule fold_handle_timerInv) (simp add: timerInv_def initial_def)

lemma elapse_timerInv: "timerInv s \<Longrightarrow> timerInv (elapse dt s)"
  by (simp add: timerInv_def elapse_frame)

lemma fold_runCallback_status:
  "status (fold runCallback cbs s) = (if ClearStatus \<in> set cbs then None else status s)"
proof (induction cbs arbitrary: s)
  case Nil
  show ?case by simp
next
  case (Cons cb cbs)
  show ?case using Cons.IH[of "runCallback cb s"] by (cases cb) auto
qed

lemma elapse_status:
  "status (elapse dt s) =
     (if ClearStatus \<in> callback ` set (filter (\<lambda>tm. deadline tm \<le> now s + dt) (timers s))
      then None else status s)"
  by (simp add: elapse_def Let_def fold_runCallback_status)

lemma showStatus_only_timer:
  "timerInv s \<Longrightarrow>
   filter (\<lambda>t. callback t = ClearStatus) (timers (showStatus m ty s)) =
     [\<lparr>timer_id = nextTimerId s, deadline = now s + 1000, callback = ClearStatus\<rparr>]"
  by (auto simp: timerInv_def showStatus_unfold filter_empty_conv split: option.splits)

lemma elapse_after_showStatus:
  assumes "timerInv s"
  shows "status (elapse dt (showStatus m ty s)) = (if dt < 1000 then Some (m, ty) else None)"
proof -
  let ?s' = "showStatus m ty s"
  let ?B = "\<lparr>timer_id = nextTimerId s, deadline = now s + 1000, callback = ClearStatus\<rparr>"
  have now: "now ?s' = now s" and st: "status ?s' = Some (m, ty)"
    by (simp_all add: showStatus_unfold)
  have "(ClearStatus \<in> callback ` set (filter (\<lambda>tm. deadline tm \<le> now ?s' + dt) (timers ?s')))
        = (\<exists>tm \<in> set (filter (\<lambda>t. callback t = ClearStatus) (timers ?s')). deadline tm \<le> now ?s' + dt)"
    by (auto simp: image_iff)
  also have "\<dots> = (1000 \<le> dt)"
    by (simp add: showStatus_only_timer[OF assms] now)
  finally show ?thesis
    by (simp add: elapse_status st)
qed

text \<open>
  Claim C5. Let notification A be issued in a reachable state and notification B less
  than 1000 ms later, with nothing else in between. When B is issued A is on show and
  its timer is pending and held by \<open>statusTimeoutRef\<close>; issuing B cancels that timer
  (its handle is no longer pending) and leaves B's timer as the only pending dismissal.
  From then on the status is B until 1000 ms after B was issued and empty afterwards: A's
  dismissal never clears B, and nothing but B is shown.
\<close>

theorem newer_status_supersedes:
  assumes "dt1 < 1000"
  shows
    "(let s0 = run v evs;
          s1 = showStatus mA tA s0;
          s2 = elapse dt1 s1;
          s3 = showStatus mB tB s2;
          timerA = \<lparr>timer_id = nextTimerId s0, deadline = now s0 + 1000, callback = ClearStatus\<rparr>;
          timerB = \<lparr>timer_id = nextTimerId s2, deadline = now s2 + 1000, callback = ClearStatus\<rparr>
      in status s2 = Some (mA, tA)
         \<and> timerA \<in> set (timers s2)
         \<and> statusTimeoutRef s2 = Some (timer_id timerA)
         \<and> timer_id timerA \<notin> timer_id ` set (timers s3)
         \<and> filter (\<lambda>t. callback t = ClearStatus) (timers s3) = [timerB]
         \<and> status s3 = Some (mB, tB)
         \<and> (\<forall>dt. status (elapse dt s3) = (if dt < 1000 then Some (mB, tB) else None)))"
proof -
  let ?s0 = "run v evs"
  let ?s1 = "showStatus mA tA ?s0"
  let ?s2 = "elapse dt1 ?s1"
  let ?s3 = "showStatus mB tB ?s2"
  have i0: "timerInv ?s0" by (rule run_timerInv)
  then have i1: "timerInv ?s1" by (rule showStatus_timerInv)
  then have i2: "timerInv ?s2" by (rule elapse_timerInv)
  have pos: "0 < nextTimerId ?s0" using i0 by (simp add: timerInv_def)
  have a: "status ?s2 = Some (mA, tA)"
    using elapse_after_showStatus[OF i0, of dt1 mA tA] assms by simp
  have b: "\<lparr>timer_id = nextTimerId ?s0, deadline = now ?s0 + 1000, callback = ClearStatus\<rparr>
             \<in> set (timers ?s2)"
    using assms by (simp add: elapse_frame) (simp add: showStatus_unfold)
  have c: "statusTimeoutRef ?s2 = Some (nextTimerId ?s0)"
    by (simp add: elapse_frame) (simp add: showStatus_unfold)
  have n2: "nextTimerId ?s2 = Suc (nextTimerId ?s0)"
    by (simp add: elapse_frame) (simp add: showStatus_unfold)
  have d: "nextTimerId ?s0 \<notin> timer_id ` set (timers ?s3)"
    using pos by (simp add: showStatus_unfold[of mB tB ?s2] c n2) auto
  have e: "filter (\<lambda>t. callback t = ClearStatus) (timers ?s3)
             = [\<lparr>timer_id = nextTimerId ?s2, deadline = now ?s2 + 1000, callback = ClearStatus\<rparr>]"
    by (rule showStatus_only_timer[OF i2])
  have f: "status ?s3 = Some (mB, tB)" by (simp add: showStatus_unfold[of mB tB ?s2])
  have g: "\<forall>dt. status (elapse dt ?s3) = (if dt < 1000 then Some (mB, tB) else None)"
    using elapse_after_showStatus[OF i2] by blast
  show ?thesis
    unfolding Let_def using a b c d e f g by simp
qed

theorem newer_status_supersedes_witness:
  "(400::nat) < 1000
   \<and> status (elapse 400 (showStatus ''A'' Error (initial ElizaTape))) = Some (''A'', Error)
   \<and> status (elapse 600 (showStatus ''B'' Success (elapse 400 (showStatus ''A'' Error (initial ElizaTape)))))
       = Some (''B'', Success)
   \<and> status (elapse 1000 (showStatus ''B'' Success (elapse 400 (showStatus ''A'' Error (initial ElizaTape)))))
       = None
   \<and> map timer_id (timers (showStatus ''B'' Success (elapse 400 (showStatus ''A'' Error (initial ElizaTape)))))
       = [2]"
proof -
  have h: "(400::nat) < 1000" by simp
  have r: "run ElizaTape [] = initial ElizaTape" by (simp add: run_def)
  show ?thesis
    using newer_status_supersedes[OF h, of ElizaTape "[]" "''A''" Error "''B''" Success]
    unfolding r Let_def
    by (simp add: initial_def showStatus_unfold elapse_def)
qed

section \<open>Export and preview\<close>

text \<open>
  Claim C8. When the export reaches the overlay, its effects are, in this order: the
  canvas at the photo's size with the photo drawn full-frame, \<open>save\<close>, translate to the
  canvas centre plus the position scaled by \<open>(scaleX, scaleY)\<close>, rotate by the rotation
  in radians, \<open>scale(-1, 1)\<close> when \<open>flipX\<close> holds, \<open>scale(s, s)\<close> with \<open>s\<close> the
  transform's scale, the hat drawn centred at the origin, \<open>restore\<close>, and the download.
  The preview's transform list is translate, translate, rotate, scale in the same order,
  and the hat is drawn under the same rotation, mirror and scale matrix as in the
  preview.
\<close>

theorem export_transform_order:
  assumes "exportReady env s"
  shows
    "(let canvas = originalImageSize s;
          sc = exportScale (containerRect env) canvas;
          t = transform s;
          w = overlayDisplayWidth v env * fst sc;
          h = (w * snd (hatImgSize env)) / fst (hatImgSize env)
      in snd (handleSave v env s) =
           [CreateCanvas, ResizeCanvas (fst canvas) (snd canvas),
            DrawImage (BaseImg (baseImage s)) 0 0 (fst canvas) (snd canvas),
            CtxSave,
            CtxTranslate (fst canvas / 2 + pos_x (position t) * fst sc)
                         (snd canvas / 2 + pos_y (position t) * snd sc),
            CtxRotate ((rotation t * pi) / 180)]
           @ (if flipX t then [CtxScale (- 1) 1] else [])
           @ [CtxScale (scale t) (scale t),
              DrawImage (HatImg (saveHatImage s)) (- w / 2) (- h / 2) w h,
              CtxRestore,
              Download (downloadName v)]
         \<and> getOverlayStyle s =
             [TranslatePercent (- 50) (- 50),
              TranslatePx (pos_x (position t)) (pos_y (position t)),
              RotateDeg (rotation t),
              ScaleXY (scale t * (if flipX t then - 1 else 1)) (scale t)]
         \<and> map (\<lambda>(src, m, dx, dy, dw, dh). (src, linearPart m, dx, dy, dw, dh))
               (canvasRun (snd (handleSave v env s)) identityM [])
             = [(BaseImg (baseImage s), linearPart identityM, 0, 0, fst canvas, snd canvas),
                (HatImg (saveHatImage s), linearPart (cssMatrix box (getOverlayStyle s) identityM),
                 - w / 2, - h / 2, w, h)])"
proof -
  have ops: "snd (handleSave v env s) =
      [CreateCanvas, ResizeCanvas (fst (originalImageSize s)) (snd (originalImageSize s)),
       DrawImage (BaseImg (baseImage s)) 0 0 (fst (originalImageSize s)) (snd (originalImageSize s))]
      @ drawOverlay v env (transform s) (saveHatImage s) (originalImageSize s)
          (exportScale (containerRect env) (originalImageSize s))
      @ [Download (downloadName v)]"
    using assms by (simp add: exportReady_def handleSave_def Let_def)
  show ?thesis
    unfolding ops Let_def
    by (simp add: drawOverlay_def getOverlayStyle_def Let_def identityM_def translateM_def rotateM_def scaleM_def)
qed


theorem export_transform_order_witness:
  "exportReady sampleEnv sampleState
   \<and> snd (handleSave ElizaTape sampleEnv sampleState) =
       [CreateCanvas, ResizeCanvas 1000 2000,
        DrawImage (BaseImg ''data:image/png;base64,AAAA'') 0 0 1000 2000,
        CtxSave, CtxTranslate 750 850, CtxRotate 0, CtxScale (11 / 10) (11 / 10),
        DrawImage (HatImg RightImage) (- 250) (- 125) 500 250,
        CtxRestore, Download ''you-are-a-partner-now.png'']"
proof -
  have r: "exportReady sampleEnv sampleState"
    by (simp add: exportReady_def sampleEnv_def sampleState_def initial_def)
  have c: "snd (handleSave ElizaTape sampleEnv sampleState) =
       [CreateCanvas, ResizeCanvas 1000 2000,
        DrawImage (BaseImg ''data:image/png;base64,AAAA'') 0 0 1000 2000,
        CtxSave, CtxTranslate 750 850, CtxRotate 0, CtxScale (11 / 10) (11 / 10),
        DrawImage (HatImg RightImage) (- 250) (- 125) 500 250,
        CtxRestore, Download ''you-are-a-partner-now.png'']"
    using export_transform_order[OF r, of ElizaTape]
    by (simp add: Let_def sampleEnv_def sampleState_def initial_def defaultHatImage_def
        exportScale_def)
  show ?thesis by (rule conjI[OF r c])
qed

end
